theory Spec2Isabelle
  imports Main
begin

section \<open>Data model\<close>

text \<open>
  The authentication core of the user-management API lives in
  \<^verbatim>\<open>app/core/security.py\<close>; the user routes in \<^verbatim>\<open>app/api/api_user.py\<close>.
  Exceptions are values: a function that raises returns \<open>Inl\<close> of the exception,
  a function that returns a value returns \<open>Inr\<close> of it.
  Python strings are byte lists in UTF-8, so the Vietnamese detail messages of the
  source are spelled out byte by byte.
\<close>

text \<open>FastAPI's \<^verbatim>\<open>HTTPException(status_code=..., detail=...)\<close>.\<close>

datatype http_exception = HTTPException (status_code: int) (detail: string)

text \<open>
  Modelled from the spec: the \<^verbatim>\<open>User\<close> model class (\<^verbatim>\<open>app/models/model_user.py\<close>)
  is not part of the sources at hand. The code reads \<^verbatim>\<open>id\<close> and \<^verbatim>\<open>user_name\<close>; the
  spec gives a principal an identifier, a username, a password hash and an
  active/locked status flag.
\<close>

record user =
  user_id :: int
  user_name :: string
  hashed_password :: string
  is_active :: bool

text \<open>The four detail messages raised by \<^verbatim>\<open>security.py\<close> (lines 54, 58, 64, 77).\<close>

definition detail_credentials :: string where
  "detail_credentials =
     ''Kh'' @ [CHR 0xC3, CHR 0xB4] @ ''ng th'' @ [CHR 0xE1, CHR 0xBB, CHR 0x83] @ '' x''
     @ [CHR 0xC3, CHR 0xA1] @ ''c th'' @ [CHR 0xE1, CHR 0xBB, CHR 0xB1] @ ''c th''
     @ [CHR 0xC3, CHR 0xB4] @ ''ng tin '' @ [CHR 0xC4, CHR 0x91, CHR 0xC4, CHR 0x83]
     @ ''ng nh'' @ [CHR 0xE1, CHR 0xBA, CHR 0xAD] @ ''p''"

definition detail_invalid_token :: string where
  "detail_invalid_token =
     ''Token kh'' @ [CHR 0xC3, CHR 0xB4] @ ''ng h'' @ [CHR 0xE1, CHR 0xBB, CHR 0xA3]
     @ ''p l'' @ [CHR 0xE1, CHR 0xBB, CHR 0x87]"

definition detail_credentials_3 :: string where
  "detail_credentials_3 = detail_credentials @ '' 3''"

definition detail_forbidden :: string where
  "detail_forbidden =
     ''B'' @ [CHR 0xE1, CHR 0xBA, CHR 0xA1] @ ''n kh'' @ [CHR 0xC3, CHR 0xB4] @ ''ng c''
     @ [CHR 0xC3, CHR 0xB3] @ '' quy'' @ [CHR 0xE1, CHR 0xBB, CHR 0x81] @ ''n truy c''
     @ [CHR 0xE1, CHR 0xBA, CHR 0xAD] @ ''p''"

section \<open>Permission checker\<close>

text \<open>
  \<^verbatim>\<open>
  def check_permissions(required_roles: list[str]):
      def permission_checker(current_user, db, user_role_repository):
          user_roles = user_role_repository.get_role_names_by_user_id(current_user.id)
          if not any(role in required_roles for role in user_roles):
              raise HTTPException(status_code=403, detail=...)
          return current_user
      return permission_checker
  \<close>
  The role repository is injected; its one method is the parameter
  \<open>get_role_names_by_user_id\<close>. The database session \<^verbatim>\<open>db\<close> is not used.
\<close>

definition check_permissions ::
  "string list \<Rightarrow> (int \<Rightarrow> string list) \<Rightarrow> user \<Rightarrow> http_exception + user" where
  "check_permissions required_roles get_role_names_by_user_id current_user =
     (let user_roles = get_role_names_by_user_id (user_id current_user) in
      if \<not> list_ex (\<lambda>role. role \<in> set required_roles) user_roles
      then Inl (HTTPException 403 detail_forbidden)
      else Inr current_user)"

section \<open>Password hasher\<close>

text \<open>
  \<^verbatim>\<open>
  pwd_context = CryptContext(schemes=["bcrypt"], deprecated="auto")

  def verify_password(password, hash_password):
      return pwd_context.verify(password, hash_password)

  def get_password_hash(password: str) -> str:
      return pwd_context.hash(password)
  \<close>
  The hashing context is an object of the passlib library, outside the repository.
  It is a parameter: a record of its two methods, each of which returns a value or
  raises. Hashing draws a random salt; the draw is the explicit argument \<open>salt\<close>.
\<close>

datatype passlib_error = UnknownHashError | PasswordValueError | MissingBackendError

record crypt_context =
  hash :: "string \<Rightarrow> string \<Rightarrow> passlib_error + string"
  verify :: "string \<Rightarrow> string \<Rightarrow> passlib_error + bool"

definition verify_password :: "crypt_context \<Rightarrow> string \<Rightarrow> string \<Rightarrow> passlib_error + bool" where
  "verify_password pwd_context password hash_password =
     verify pwd_context password hash_password"


section \<open>Token codec and identity resolver\<close>

text \<open>
  A \<^verbatim>\<open>datetime\<close> is its count of microseconds since the epoch and a
  \<^verbatim>\<open>timedelta\<close> a count of microseconds, both as Python keeps them: exact, with
  microsecond resolution and a bounded range. \<^verbatim>\<open>datetime.utcnow()\<close> is the
  explicit argument \<open>now\<close>.

  A claim set is a dictionary from claim names to values: JSON values, and the
  \<^verbatim>\<open>datetime\<close> that \<^verbatim>\<open>create_access_token\<close> stores under \<^verbatim>\<open>exp\<close> before the
  library serialises it. The numeric date of a decoded token is a \<open>JInt\<close> of whole
  seconds.
\<close>

datatype json = JNull | JStr string | JInt int | JDatetime int

datatype py_error = OverflowError

text \<open>
  \<^verbatim>\<open>datetime.min\<close> is 0001-01-01 00:00:00 and \<^verbatim>\<open>datetime.max\<close> is
  9999-12-31 23:59:59.999999; adding a \<^verbatim>\<open>timedelta\<close> to a \<^verbatim>\<open>datetime\<close> raises
  \<^verbatim>\<open>OverflowError\<close> when the sum leaves that range.
\<close>

definition datetime_min :: int where
  "datetime_min = - 62135596800000000"

definition datetime_max :: int where
  "datetime_max = 253402300799999999"

definition datetime_add :: "int \<Rightarrow> int \<Rightarrow> py_error + int" where
  "datetime_add dt delta =
     (if datetime_min \<le> dt + delta \<and> dt + delta \<le> datetime_max
      then Inr (dt + delta) else Inl OverflowError)"

text \<open>
  \<^verbatim>\<open>timedelta(seconds=n)\<close> for an integer \<open>n\<close>: the days of a \<^verbatim>\<open>timedelta\<close> lie
  between -999999999 and 999999999, and the constructor raises \<^verbatim>\<open>OverflowError\<close>
  beyond.
\<close>

definition timedelta_seconds :: "int \<Rightarrow> py_error + int" where
  "timedelta_seconds n =
     (if - 999999999 * 86400 \<le> n \<and> n < 1000000000 * 86400
      then Inr (n * 1000000) else Inl OverflowError)"

type_synonym claims = "string \<rightharpoonup> json"

text \<open>
  The PyJWT library is outside the repository and is a parameter as well: a record of
  \<^verbatim>\<open>jwt.encode(payload, key, algorithm)\<close> and
  \<^verbatim>\<open>jwt.decode(token, key, algorithms)\<close>. Decoding reads the clock, so it takes
  the current time (in microseconds); it returns the payload or raises a subclass
  of \<^verbatim>\<open>jwt.PyJWTError\<close>.
\<close>

datatype jwt_error =
  ExpiredSignatureError | InvalidSignatureError | DecodeError | InvalidAlgorithmError
  | InvalidSubjectError

record 'tok jwt =
  encode :: "claims \<Rightarrow> string \<Rightarrow> string \<Rightarrow> 'tok"
  decode :: "'tok \<Rightarrow> string \<Rightarrow> string list \<Rightarrow> int \<Rightarrow> jwt_error + claims"

text \<open>
  The fields of \<^verbatim>\<open>app.core.config.settings\<close> that \<^verbatim>\<open>security.py\<close> reads; the
  configuration module is not among the sources, and the default lifetime is taken
  to be an integer number of seconds, as its name says.
\<close>

record settings =
  SECRET_KEY :: string
  SECURITY_ALGORITHM :: string
  ACCESS_TOKEN_EXPIRE_SECONDS :: int

text \<open>
  \<^verbatim>\<open>
  def create_access_token(data: dict, expires_delta: timedelta = None):
      to_encode = data.copy()
      expire = datetime.utcnow() + (
          expires_delta or timedelta(seconds=settings.ACCESS_TOKEN_EXPIRE_SECONDS))
      to_encode.update({"exp": expire})
      return jwt.encode(to_encode, settings.SECRET_KEY,
                        algorithm=settings.SECURITY_ALGORITHM)
  \<close>
  Python's \<^verbatim>\<open>a or b\<close> yields \<open>a\<close> when \<open>a\<close> is truthy and evaluates \<open>b\<close> only
  otherwise: \<^verbatim>\<open>None\<close> is falsy, and so is a \<^verbatim>\<open>timedelta\<close> of zero length; every
  other \<^verbatim>\<open>timedelta\<close>, of half a second or of negative length as well, is truthy.
  The default lifetime is built only when it is needed, and building it can
  overflow, as the addition can.
\<close>

definition create_access_token ::
  "'tok jwt \<Rightarrow> settings \<Rightarrow> int \<Rightarrow> claims \<Rightarrow> int option \<Rightarrow> py_error + 'tok" where
  "create_access_token lib st now data expires_delta =
     (let to_encode = data in
      case (case expires_delta of
              None \<Rightarrow> timedelta_seconds (ACCESS_TOKEN_EXPIRE_SECONDS st)
            | Some d \<Rightarrow>
                if d = 0 then timedelta_seconds (ACCESS_TOKEN_EXPIRE_SECONDS st)
                else Inr d) of
        Inl err \<Rightarrow> Inl err
      | Inr delta \<Rightarrow>
          (case datetime_add now delta of
             Inl err \<Rightarrow> Inl err
           | Inr expire \<Rightarrow>
               (let to_encode = to_encode(''exp'' \<mapsto> JDatetime expire)
                in Inr (encode lib to_encode (SECRET_KEY st) (SECURITY_ALGORITHM st)))))"

text \<open>
  \<^verbatim>\<open>get_current_user\<close>, lines 45 to 59: the \<^verbatim>\<open>try\<close> block. Every
  \<^verbatim>\<open>jwt.PyJWTError\<close> is caught by the one \<^verbatim>\<open>except\<close> clause and becomes the
  same 403; the 401 for a missing subject is an \<^verbatim>\<open>HTTPException\<close>, which that
  clause does not catch. \<^verbatim>\<open>payload.get("sub")\<close> is \<^verbatim>\<open>None\<close> for an absent key
  and for a JSON null.
\<close>

definition decode_username ::
  "'tok jwt \<Rightarrow> settings \<Rightarrow> 'tok \<Rightarrow> int \<Rightarrow> http_exception + json" where
  "decode_username lib st credentials now =
     (case decode lib credentials (SECRET_KEY st) [SECURITY_ALGORITHM st] now of
        Inl e \<Rightarrow> Inl (HTTPException 403 detail_invalid_token)
      | Inr payload \<Rightarrow>
          (case payload ''sub'' of
             None \<Rightarrow> Inl (HTTPException 401 detail_credentials)
           | Some JNull \<Rightarrow> Inl (HTTPException 401 detail_credentials)
           | Some username \<Rightarrow> Inr username))"

text \<open>
  \<^verbatim>\<open>get_current_user\<close>, lines 60 to 66:
  \<^verbatim>\<open>
      user = session.query(User).filter(User.user_name == username).first()
      if user is None:
          raise HTTPException(status_code=403, detail=...)
      return user
  \<close>
  The user table is the list \<open>users\<close> of its rows in query order; the filter
  compares the name column with the subject and nothing else.
\<close>

definition get_current_user ::
  "'tok jwt \<Rightarrow> settings \<Rightarrow> 'tok \<Rightarrow> int \<Rightarrow> user list \<Rightarrow> http_exception + user" where
  "get_current_user lib st credentials now users =
     (case decode_username lib st credentials now of
        Inl e \<Rightarrow> Inl e
      | Inr username \<Rightarrow>
          (case find (\<lambda>u. JStr (user_name u) = username) users of
             None \<Rightarrow> Inl (HTTPException 403 detail_credentials_3)
           | Some user \<Rightarrow> Inr user))"

section \<open>User routes\<close>

text \<open>
  \<^verbatim>\<open>CustomException(http_code=..., code=..., message=...)\<close> of
  \<^verbatim>\<open>app.helpers.exception_handler\<close>, as the routes construct it, and the envelope
  \<^verbatim>\<open>DataResponse().custom_response(code=..., message=..., data=...)\<close>.
  A Python exception is observed through \<^verbatim>\<open>str(e)\<close>.
\<close>

datatype custom_exception =
  CustomException (http_code: int) (code: string) (message: string)

datatype 'd data_response = DataResponse string string 'd

datatype exn = Exception (str: string)

text \<open>
  \<^verbatim>\<open>
  def get(params, user_service):
      try:
          _query = user_service.get_all_user()
          users = paginate(model=User, query=_query, params=params)
          return users
      except Exception as e:
          error_details = traceback.format_exc()
          print(f"Error occurred: {error_details}")
          raise CustomException(
              http_code=400, code="400", message=f"{str(e)}: {error_details}")
  \<close>
  The service call, the pagination helper and \<^verbatim>\<open>traceback.format_exc\<close> are
  parameters. The \<^verbatim>\<open>print\<close> writes to the server's standard output, not to the
  response.
\<close>

definition get ::
  "'p \<Rightarrow> (exn + 'q) \<Rightarrow> ('q \<Rightarrow> 'p \<Rightarrow> exn + 'page) \<Rightarrow> (exn \<Rightarrow> string)
     \<Rightarrow> custom_exception + 'page" where
  "get params get_all_user paginate format_exc =
     (case get_all_user of
        Inl e \<Rightarrow> Inl (CustomException 400 ''400'' (str e @ '': '' @ format_exc e))
      | Inr query \<Rightarrow>
          (case paginate query params of
             Inl e \<Rightarrow> Inl (CustomException 400 ''400'' (str e @ '': '' @ format_exc e))
           | Inr users \<Rightarrow> Inr users))"

definition message_roles_of_user :: string where
  "message_roles_of_user =
     ''L'' @ [CHR 0xE1, CHR 0xBA, CHR 0xA5] @ ''y danh s'' @ [CHR 0xC3, CHR 0xA1]
     @ ''ch vai tr'' @ [CHR 0xC3, CHR 0xB2] @ '' c'' @ [CHR 0xE1, CHR 0xBB, CHR 0xA7]
     @ ''a ng'' @ [CHR 0xC6, CHR 0xB0, CHR 0xE1, CHR 0xBB, CHR 0x9D] @ ''i d''
     @ [CHR 0xC3, CHR 0xB9] @ ''ng''"

text \<open>
  \<^verbatim>\<open>
  def get_roles_of_user(user_id, user_service):
      try:
          data = user_service.get_roles_by_user_id(user_id)
          return DataResponse().custom_response(code="200", message=..., data=data)
      except Exception as e:
          error_details = traceback.format_exc()
          print(f"Error occurred: {error_details}")
          raise CustomException(
              http_code=400, code="400", message=f"{str(e)}: {error_details}")
  \<close>
\<close>

definition get_roles_of_user ::
  "int \<Rightarrow> (int \<Rightarrow> exn + 'd) \<Rightarrow> (exn \<Rightarrow> string) \<Rightarrow> custom_exception + 'd data_response" where
  "get_roles_of_user uid get_roles_by_user_id format_exc =
     (case get_roles_by_user_id uid of
        Inl e \<Rightarrow> Inl (CustomException 400 ''400'' (str e @ '': '' @ format_exc e))
      | Inr data \<Rightarrow> Inr (DataResponse ''200'' message_roles_of_user data))"

section \<open>Concrete inputs\<close>

text \<open>Two rows of the user table: \<open>alice\<close> is active, \<open>bob\<close> is locked.\<close>

definition alice :: user where
  "alice = \<lparr>user_id = 1, user_name = ''alice'', hashed_password = ''$sym$aapw1'',
            is_active = True\<rparr>"

definition bob :: user where
  "bob = \<lparr>user_id = 2, user_name = ''bob'', hashed_password = ''$sym$bbpw2'',
          is_active = False\<rparr>"

definition sample_users :: "user list" where
  "sample_users = [alice, bob]"

definition sample_roles :: "int \<Rightarrow> string list" where
  "sample_roles uid = (if uid = 1 then [''ADMIN''] else [''VIEWER''])"

definition sample_settings :: settings where
  "sample_settings =
     \<lparr>SECRET_KEY = ''s3cr3t'', SECURITY_ALGORITHM = ''HS256'',
      ACCESS_TOKEN_EXPIRE_SECONDS = 3600\<rparr>"

text \<open>
  An instance of the JWT interface with symbolic signing: a token is the signed claim
  set together with the key and the algorithm that signed it, or bytes that are no
  token at all. It behaves as PyJWT does. Encoding turns a \<^verbatim>\<open>datetime\<close> under
  \<^verbatim>\<open>exp\<close>, \<^verbatim>\<open>iat\<close> or \<^verbatim>\<open>nbf\<close> into whole seconds, dropping the microseconds.
  Decoding raises \<^verbatim>\<open>DecodeError\<close> for a malformed token,
  \<^verbatim>\<open>InvalidAlgorithmError\<close> for an algorithm not in the allowed list,
  \<^verbatim>\<open>InvalidSignatureError\<close> for another key, \<^verbatim>\<open>ExpiredSignatureError\<close> once the
  clock has reached \<^verbatim>\<open>exp\<close> (the instant \<^verbatim>\<open>exp\<close> itself included), and
  \<^verbatim>\<open>InvalidSubjectError\<close> for a subject that is not a string.
\<close>

datatype sym_token =
  Signed (token_claims: claims) (token_key: string) (token_alg: string)
  | Garbage string

definition numeric_date :: "string \<Rightarrow> claims \<Rightarrow> claims" where
  "numeric_date time_claim payload =
     (case payload time_claim of
        Some (JDatetime t) \<Rightarrow> payload(time_claim \<mapsto> JInt (t div 1000000))
      | _ \<Rightarrow> payload)"

definition sym_encode :: "claims \<Rightarrow> string \<Rightarrow> string \<Rightarrow> sym_token" where
  "sym_encode payload key algorithm =
     Signed (fold numeric_date [''exp'', ''iat'', ''nbf''] payload) key algorithm"

definition sym_decode :: "sym_token \<Rightarrow> string \<Rightarrow> string list \<Rightarrow> int \<Rightarrow> jwt_error + claims" where
  "sym_decode token key algorithms now =
     (case token of
        Garbage _ \<Rightarrow> Inl DecodeError
      | Signed payload k a \<Rightarrow>
          if a \<notin> set algorithms then Inl InvalidAlgorithmError
          else if k \<noteq> key then Inl InvalidSignatureError
          else if (case payload ''exp'' of
                     Some (JInt e) \<Rightarrow> e * 1000000 \<le> now
                   | _ \<Rightarrow> False)
            then Inl ExpiredSignatureError
          else (case payload ''sub'' of
                  None \<Rightarrow> Inr payload
                | Some (JStr s) \<Rightarrow> Inr payload
                | Some _ \<Rightarrow> Inl InvalidSubjectError))"

definition sym_jwt :: "sym_token jwt" where
  "sym_jwt = \<lparr>encode = sym_encode, decode = sym_decode\<rparr>"

definition alice_data :: claims where
  "alice_data = [''sub'' \<mapsto> JStr ''alice'']"

definition bob_data :: claims where
  "bob_data = [''sub'' \<mapsto> JStr ''bob'']"

definition mallory_data :: claims where
  "mallory_data = [''sub'' \<mapsto> JStr ''mallory'']"

text \<open>
  The tokens issued at the clock 1000 s (in microseconds: 1000000000): for \<open>alice\<close>
  with a lifetime of 60 s and with a lifetime of half a second, for \<open>bob\<close> and for
  \<open>mallory\<close> with the default lifetime of 3600 s.
\<close>

definition alice_token :: sym_token where
  "alice_token = Signed (alice_data(''exp'' \<mapsto> JInt 1060)) ''s3cr3t'' ''HS256''"

definition alice_half_second_token :: sym_token where
  "alice_half_second_token = Signed (alice_data(''exp'' \<mapsto> JInt 1000)) ''s3cr3t'' ''HS256''"

definition alice_default_token :: sym_token where
  "alice_default_token = Signed (alice_data(''exp'' \<mapsto> JInt 4600)) ''s3cr3t'' ''HS256''"

definition bob_token :: sym_token where
  "bob_token = Signed (bob_data(''exp'' \<mapsto> JInt 4600)) ''s3cr3t'' ''HS256''"

definition mallory_token :: sym_token where
  "mallory_token = Signed (mallory_data(''exp'' \<mapsto> JInt 4600)) ''s3cr3t'' ''HS256''"

text \<open>
  An instance of the hashing context with a symbolic digest: the scheme tag, two
  characters of salt and the password. As passlib's \<^verbatim>\<open>CryptContext.verify\<close> does, it
  raises \<^verbatim>\<open>UnknownHashError\<close> for a second argument that no configured scheme
  identifies; as passlib's bcrypt scheme does, it raises \<^verbatim>\<open>PasswordValueError\<close>
  for a password that contains a NUL byte, in hashing and in verifying.
\<close>

definition sym_hash :: "string \<Rightarrow> string \<Rightarrow> passlib_error + string" where
  "sym_hash password salt =
     (if CHR 0x00 \<in> set password then Inl PasswordValueError
      else Inr (''$sym$'' @ take 2 (salt @ ''..'') @ password))"

definition sym_verify :: "string \<Rightarrow> string \<Rightarrow> passlib_error + bool" where
  "sym_verify password hash_password =
     (if \<not> (take 5 hash_password = ''$sym$'' \<and> 7 \<le> length hash_password)
      then Inl UnknownHashError
      else if CHR 0x00 \<in> set password then Inl PasswordValueError
      else Inr (drop 7 hash_password = password))"


definition sym_context :: crypt_context where
  "sym_context = \<lparr>hash = sym_hash, verify = sym_verify\<rparr>"

text \<open>A service whose call fails, and the traceback the runtime formats for it.\<close>

definition db_down :: exn where
  "db_down = Exception ''could not connect to server: users-db:5432''"

definition failing_get_all_user :: "exn + nat list" where
  "failing_get_all_user = Inl db_down"

definition failing_get_roles_by_user_id :: "int \<Rightarrow> exn + string list" where
  "failing_get_roles_by_user_id uid = Inl db_down"

definition first_page :: "nat list \<Rightarrow> nat \<Rightarrow> exn + nat list" where
  "first_page query page_size = Inr (take page_size query)"

definition sample_format_exc :: "exn \<Rightarrow> string" where
  "sample_format_exc e =
     ''Traceback (most recent call last): File user_service.py, line 21: '' @ str e"

section \<open>Auxiliary facts\<close>

lemma any_role_iff:
  "list_ex (\<lambda>role. role \<in> set required_roles) user_roles
     \<longleftrightarrow> set user_roles \<inter> set required_roles \<noteq> {}"
  by (auto simp: list_ex_iff)

lemma sym_jwt_roundtrip:
  "datetime_min \<le> e \<Longrightarrow> e \<le> datetime_max \<Longrightarrow> now < (e div 1000000) * 1000000 \<Longrightarrow>
     \<exists>payload.
       decode sym_jwt
         (encode sym_jwt [''sub'' \<mapsto> JStr s, ''exp'' \<mapsto> JDatetime e] key alg)
         key [alg] now = Inr payload
       \<and> payload ''sub'' = Some (JStr s)"
  by (simp add: sym_jwt_def sym_encode_def sym_decode_def numeric_date_def)

lemma issue_alice:
  "create_access_token sym_jwt sample_settings 1000000000 alice_data (Some 60000000)
     = Inr alice_token"
  by (simp add: create_access_token_def datetime_add_def datetime_min_def datetime_max_def
      sym_jwt_def sym_encode_def numeric_date_def sample_settings_def alice_data_def
      alice_token_def)

lemma issue_bob:
  "create_access_token sym_jwt sample_settings 1000000000 bob_data None = Inr bob_token"
  by (simp add: create_access_token_def datetime_add_def datetime_min_def datetime_max_def
      timedelta_seconds_def sym_jwt_def sym_encode_def numeric_date_def sample_settings_def
      bob_data_def bob_token_def)

lemma decode_username_bob:
  "decode_username sym_jwt sample_settings bob_token 1500000000 = Inr (JStr ''bob'')"
  by (simp add: decode_username_def sym_jwt_def sym_decode_def sample_settings_def
      bob_token_def bob_data_def)

lemma whole_second_after_issue:
  fixes issued_at t :: int
  assumes "1000000 \<le> t"
  shows "issued_at < ((issued_at + t) div 1000000) * 1000000"
proof -
  have "(issued_at + t) mod 1000000 < 1000000" by simp
  moreover have "((issued_at + t) div 1000000) * 1000000
      = (issued_at + t) - (issued_at + t) mod 1000000"
    by (simp add: minus_mod_eq_div_mult)
  ultimately show ?thesis using assms by linarith
qed

lemma find_is_active_update:
  "find (\<lambda>u. JStr (user_name u) = username) (map (is_active_update f) users)
     = map_option (is_active_update f) (find (\<lambda>u. JStr (user_name u) = username) users)"
  by (induction users) simp_all

lemma find_None_names:
  "find (\<lambda>u. JStr (user_name u) = username) users = None
     \<longleftrightarrow> (\<forall>u\<in>set users. JStr (user_name u) \<noteq> username)"
  by (auto simp: find_None_iff)

lemma get_raises:
  "get_all_user = Inl e \<or> (\<exists>q. get_all_user = Inr q \<and> paginate q params = Inl e)
     \<Longrightarrow> get params get_all_user paginate format_exc
           = Inl (CustomException 400 ''400'' (str e @ '': '' @ format_exc e))"
  by (auto simp: get_def)

lemma get_Inl:
  "get params get_all_user paginate format_exc = Inl x
     \<Longrightarrow> \<exists>e. x = CustomException 400 ''400'' (str e @ '': '' @ format_exc e)
           \<and> (get_all_user = Inl e
                \<or> (\<exists>q. get_all_user = Inr q \<and> paginate q params = Inl e))"
  by (auto simp: get_def split: sum.splits)

lemma get_roles_of_user_Inl:
  "get_roles_of_user uid get_roles_by_user_id format_exc = Inl x
     \<longleftrightarrow> (\<exists>e. get_roles_by_user_id uid = Inl e
            \<and> x = CustomException 400 ''400'' (str e @ '': '' @ format_exc e))"
  by (auto simp: get_roles_of_user_def split: sum.splits)

lemma decode_username_Inl:
  "decode_username lib st credentials now = Inl h
     \<Longrightarrow> h = HTTPException 403 detail_invalid_token \<or> h = HTTPException 401 detail_credentials"
  by (auto simp: decode_username_def split: sum.splits option.splits json.splits)

lemma get_current_user_Inl:
  "get_current_user lib st credentials now users = Inl h
     \<Longrightarrow> h \<in> {HTTPException 403 detail_invalid_token, HTTPException 401 detail_credentials,
              HTTPException 403 detail_credentials_3}"
  by (auto simp: get_current_user_def split: sum.splits option.splits
      dest: decode_username_Inl)

lemma check_permissions_Inl:
  "check_permissions required_roles get_role_names_by_user_id current_user = Inl h
     \<Longrightarrow> h = HTTPException 403 detail_forbidden"
  by (auto simp: check_permissions_def Let_def split: if_splits)

section \<open>Permission checker: C1, C4\<close>

text \<open>
  C1, as the spec states it: with an empty required-role set the check succeeds for
  every principal and returns the principal. It does not: for \<open>alice\<close>, who holds the
  role ADMIN, the code raises the 403 instead of returning her.
\<close>

theorem check_permissions_empty_counterexample:
  "check_permissions [] sample_roles alice \<noteq> Inr alice"
  by (simp add: check_permissions_def sample_roles_def alice_def)

text \<open>
  C1, amended: with an empty required-role set \<open>check_permissions\<close> fails with
  HTTP 403 for every principal, whatever roles the repository reports: no role is a
  member of the empty list, and the code has no branch for an empty set.
\<close>

theorem check_permissions_empty_forbidden:
  "check_permissions [] get_role_names_by_user_id current_user
     = Inl (HTTPException 403 detail_forbidden)"
  by (simp add: check_permissions_def list_ex_iff)

text \<open>
  C4: for a non-empty required-role set, \<open>check_permissions\<close> returns the principal
  if and only if the role names the repository returns for the principal's id
  intersect the required set, and raises the 403 otherwise.
\<close>

theorem check_permissions_iff_intersect:
  assumes "required_roles \<noteq> []"
  shows "check_permissions required_roles get_role_names_by_user_id current_user =
           (if set (get_role_names_by_user_id (user_id current_user)) \<inter> set required_roles \<noteq> {}
            then Inr current_user
            else Inl (HTTPException 403 detail_forbidden))"
  by (simp add: check_permissions_def any_role_iff)

text \<open>C4 at the spec's two examples: ADMIN against ADMIN or EDITOR, VIEWER against ADMIN.\<close>

theorem check_permissions_iff_intersect_witness:
  "[''ADMIN'', ''EDITOR''] \<noteq> []
   \<and> check_permissions [''ADMIN'', ''EDITOR''] sample_roles alice = Inr alice
   \<and> check_permissions [''ADMIN''] sample_roles (alice\<lparr>user_id := 2\<rparr>)
       = Inl (HTTPException 403 detail_forbidden)"
  using check_permissions_iff_intersect [of "[''ADMIN'', ''EDITOR'']" sample_roles alice]
    check_permissions_iff_intersect [of "[''ADMIN'']" sample_roles "alice\<lparr>user_id := 2\<rparr>"]
  by (simp add: sample_roles_def alice_def)

section \<open>Identity resolver: C2\<close>

text \<open>
  C2, as the spec states it: a token of a locked user is denied like a token of a user
  that does not exist, and a locked user's record is never returned. It is returned:
  \<open>bob\<close> is locked, his token resolves to his record, while the token of a subject
  without a record is denied.
\<close>

theorem get_current_user_locked_counterexample:
  "create_access_token sym_jwt sample_settings 1000000000 bob_data None = Inr bob_token
   \<and> get_current_user sym_jwt sample_settings bob_token 1500000000 sample_users = Inr bob
   \<and> \<not> is_active bob
   \<and> create_access_token sym_jwt sample_settings 1000000000 mallory_data None
       = Inr mallory_token
   \<and> get_current_user sym_jwt sample_settings mallory_token 1500000000 sample_users
       = Inl (HTTPException 403 detail_credentials_3)"
  by (simp add: get_current_user_def decode_username_def create_access_token_def
      datetime_add_def datetime_min_def datetime_max_def timedelta_seconds_def
      sym_jwt_def sym_encode_def numeric_date_def sym_decode_def sample_settings_def
      bob_data_def mallory_data_def bob_token_def mallory_token_def
      sample_users_def alice_def bob_def)

text \<open>
  C2, amended: for a token that decodes to a subject, \<open>get_current_user\<close> returns the
  first user record that carries the subject as its name, and fails with the 403 of
  line 62 exactly when there is no such record. Whenever a record of that name is
  stored, a record is returned, and it is a stored record of that name. The status
  flag is never read: changing the flags of the stored records changes nothing but
  the flag of the record returned, so the token of a locked user resolves to that
  user's record and is not denied.
\<close>

theorem get_current_user_ignores_status:
  assumes "decode_username lib st credentials now = Inr username"
  shows "get_current_user lib st credentials now users
           = (case find (\<lambda>u. JStr (user_name u) = username) users of
                None \<Rightarrow> Inl (HTTPException 403 detail_credentials_3)
              | Some u \<Rightarrow> Inr u)
       \<and> (get_current_user lib st credentials now users
            = Inl (HTTPException 403 detail_credentials_3)
          \<longleftrightarrow> (\<forall>u\<in>set users. JStr (user_name u) \<noteq> username))
       \<and> ((\<exists>u\<in>set users. JStr (user_name u) = username)
            \<longrightarrow> (\<exists>u. get_current_user lib st credentials now users = Inr u))
       \<and> (\<forall>u. get_current_user lib st credentials now users = Inr u
            \<longrightarrow> u \<in> set users \<and> JStr (user_name u) = username)
       \<and> get_current_user lib st credentials now (map (is_active_update f) users)
            = map_sum id (is_active_update f)
                (get_current_user lib st credentials now users)"
proof -
  have res: "get_current_user lib st credentials now users =
      (case find (\<lambda>u. JStr (user_name u) = username) users of
         None \<Rightarrow> Inl (HTTPException 403 detail_credentials_3) | Some u \<Rightarrow> Inr u)"
    for users
    using assms by (simp add: get_current_user_def)
  have a: "get_current_user lib st credentials now users
            = Inl (HTTPException 403 detail_credentials_3)
          \<longleftrightarrow> (\<forall>u\<in>set users. JStr (user_name u) \<noteq> username)"
    by (simp add: res find_None_names [symmetric] split: option.splits)
  have b: "\<forall>u. get_current_user lib st credentials now users = Inr u
            \<longrightarrow> u \<in> set users \<and> JStr (user_name u) = username"
    by (auto simp: res find_Some_iff split: option.splits)
  have c: "get_current_user lib st credentials now (map (is_active_update f) users)
            = map_sum id (is_active_update f)
                (get_current_user lib st credentials now users)"
    by (simp add: res find_is_active_update split: option.splits)
  have d: "(\<exists>u\<in>set users. JStr (user_name u) = username)
            \<longrightarrow> (\<exists>u. get_current_user lib st credentials now users = Inr u)"
  proof
    assume "\<exists>u\<in>set users. JStr (user_name u) = username"
    then have "find (\<lambda>u. JStr (user_name u) = username) users \<noteq> None"
      by (simp add: find_None_names)
    then show "\<exists>u. get_current_user lib st credentials now users = Inr u"
      by (auto simp: res)
  qed
  from res a d b c show ?thesis by (intro conjI)
qed

text \<open>
  C2, amended, at the token of the locked user \<open>bob\<close>: his record is returned, and it
  is returned with every stored flag inverted as well.
\<close>

theorem get_current_user_ignores_status_witness:
  "decode_username sym_jwt sample_settings bob_token 1500000000 = Inr (JStr ''bob'')
   \<and> get_current_user sym_jwt sample_settings bob_token 1500000000 sample_users = Inr bob
   \<and> get_current_user sym_jwt sample_settings bob_token 1500000000
       (map (is_active_update Not) sample_users)
     = Inr (bob\<lparr>is_active := True\<rparr>)"
proof -
  note w = get_current_user_ignores_status [OF decode_username_bob, of sample_users Not]
  have r: "get_current_user sym_jwt sample_settings bob_token 1500000000 sample_users
      = Inr bob"
    using w [THEN conjunct1] by (simp add: sample_users_def alice_def bob_def)
  have "get_current_user sym_jwt sample_settings bob_token 1500000000
       (map (is_active_update Not) sample_users)
     = map_sum id (is_active_update Not)
         (get_current_user sym_jwt sample_settings bob_token 1500000000 sample_users)"
    using w by (elim conjE)
  then have "get_current_user sym_jwt sample_settings bob_token 1500000000
       (map (is_active_update Not) sample_users) = Inr (bob\<lparr>is_active := True\<rparr>)"
    by (simp add: r bob_def)
  with decode_username_bob r show ?thesis by (intro conjI)
qed

section \<open>User routes: C3\<close>

text \<open>
  C3, as the spec states it: the error handed to the caller holds a stable code and
  message only, never raw exception text or a stack trace. When the user service
  cannot reach its database, the message of the exception that \<open>get\<close> raises is the
  text of the caught exception followed by the formatted traceback.
\<close>

theorem handler_message_counterexample:
  "get (10::nat) failing_get_all_user first_page sample_format_exc
     = Inl (CustomException 400 ''400''
         (''could not connect to server: users-db:5432''
          @ '': ''
          @ ''Traceback (most recent call last): File user_service.py, line 21: ''
          @ ''could not connect to server: users-db:5432''))"
  by (simp add: get_def failing_get_all_user_def db_down_def sample_format_exc_def)

text \<open>
  C3, amended: when \<open>get\<close> or \<open>get_roles_of_user\<close> catches an exception \<open>e\<close>, the
  \<open>CustomException\<close> it raises has HTTP code 400, code "400" and a message that
  begins with the raw text \<open>str e\<close> followed by a colon and a space; every failure of
  the two handlers has this form. Only the denials of the authorization dependency
  (\<open>get_current_user\<close>, \<open>check_permissions\<close>) carry fixed status codes and messages.
\<close>

theorem handler_failure_message:
  "(get_all_user = Inl e \<or> (\<exists>q. get_all_user = Inr q \<and> paginate q params = Inl e)
      \<longrightarrow> (\<exists>rest. get params get_all_user paginate format_exc
                    = Inl (CustomException 400 ''400'' (str e @ '': '' @ rest))))
   \<and> (get_roles_by_user_id uid = Inl e
      \<longrightarrow> (\<exists>rest. get_roles_of_user uid get_roles_by_user_id format_exc
                    = Inl (CustomException 400 ''400'' (str e @ '': '' @ rest))))
   \<and> (get params get_all_user paginate format_exc = Inl x
      \<longrightarrow> (\<exists>e' rest. x = CustomException 400 ''400'' (str e' @ '': '' @ rest)
             \<and> (get_all_user = Inl e'
                  \<or> (\<exists>q. get_all_user = Inr q \<and> paginate q params = Inl e'))))
   \<and> (get_roles_of_user uid get_roles_by_user_id format_exc = Inl x
      \<longrightarrow> (\<exists>e' rest. x = CustomException 400 ''400'' (str e' @ '': '' @ rest)
             \<and> get_roles_by_user_id uid = Inl e'))
   \<and> (get_current_user lib st credentials now users = Inl h
      \<longrightarrow> h \<in> {HTTPException 403 detail_invalid_token, HTTPException 401 detail_credentials,
               HTTPException 403 detail_credentials_3})
   \<and> (check_permissions required_roles get_role_names_by_user_id current_user = Inl h
      \<longrightarrow> h = HTTPException 403 detail_forbidden)"
proof (intro conjI impI)
  assume "get_all_user = Inl e \<or> (\<exists>q. get_all_user = Inr q \<and> paginate q params = Inl e)"
  then have "get params get_all_user paginate format_exc
      = Inl (CustomException 400 ''400'' (str e @ '': '' @ format_exc e))"
    by (rule get_raises)
  then show "\<exists>rest. get params get_all_user paginate format_exc
          = Inl (CustomException 400 ''400'' (str e @ '': '' @ rest))"
    by blast
next
  assume "get_roles_by_user_id uid = Inl e"
  then have "get_roles_of_user uid get_roles_by_user_id format_exc
      = Inl (CustomException 400 ''400'' (str e @ '': '' @ format_exc e))"
    by (simp add: get_roles_of_user_Inl)
  then show "\<exists>rest. get_roles_of_user uid get_roles_by_user_id format_exc
          = Inl (CustomException 400 ''400'' (str e @ '': '' @ rest))"
    by blast
next
  assume "get params get_all_user paginate format_exc = Inl x"
  then have "\<exists>e'. x = CustomException 400 ''400'' (str e' @ '': '' @ format_exc e')
          \<and> (get_all_user = Inl e'
               \<or> (\<exists>q. get_all_user = Inr q \<and> paginate q params = Inl e'))"
    by (rule get_Inl)
  then show "\<exists>e' rest. x = CustomException 400 ''400'' (str e' @ '': '' @ rest)
          \<and> (get_all_user = Inl e'
               \<or> (\<exists>q. get_all_user = Inr q \<and> paginate q params = Inl e'))"
    by blast
next
  assume "get_roles_of_user uid get_roles_by_user_id format_exc = Inl x"
  then show "\<exists>e' rest. x = CustomException 400 ''400'' (str e' @ '': '' @ rest)
          \<and> get_roles_by_user_id uid = Inl e'"
    unfolding get_roles_of_user_Inl by blast
next
  assume "get_current_user lib st credentials now users = Inl h"
  then show "h \<in> {HTTPException 403 detail_invalid_token, HTTPException 401 detail_credentials,
               HTTPException 403 detail_credentials_3}"
    by (rule get_current_user_Inl)
next
  assume "check_permissions required_roles get_role_names_by_user_id current_user = Inl h"
  then show "h = HTTPException 403 detail_forbidden"
    by (rule check_permissions_Inl)
qed

text \<open>C3, amended, at the two handlers with a service that cannot reach its database.\<close>

theorem handler_failure_message_witness:
  "failing_get_all_user = Inl db_down
   \<and> (\<exists>rest. get (10::nat) failing_get_all_user first_page sample_format_exc
          = Inl (CustomException 400 ''400'' (str db_down @ '': '' @ rest)))
   \<and> failing_get_roles_by_user_id 2 = Inl db_down
   \<and> (\<exists>rest. get_roles_of_user 2 failing_get_roles_by_user_id sample_format_exc
          = Inl (CustomException 400 ''400'' (str db_down @ '': '' @ rest)))"
proof -
  have a: "failing_get_all_user = Inl db_down"
    by (simp add: failing_get_all_user_def)
  have b: "failing_get_roles_by_user_id 2 = Inl db_down"
    by (simp add: failing_get_roles_by_user_id_def)
  note w = handler_failure_message [where get_all_user = failing_get_all_user
      and e = db_down and get_roles_by_user_id = failing_get_roles_by_user_id and uid = 2
      and params = "10::nat" and paginate = first_page and format_exc = sample_format_exc]
  have a': "failing_get_all_user = Inl db_down
      \<or> (\<exists>q. failing_get_all_user = Inr q \<and> first_page q (10::nat) = Inl db_down)"
    using a by (rule disjI1)
  from w [THEN conjunct1] a'
  have c: "\<exists>rest. get (10::nat) failing_get_all_user first_page sample_format_exc
          = Inl (CustomException 400 ''400'' (str db_down @ '': '' @ rest))"
    by (rule mp)
  from w [THEN conjunct2, THEN conjunct1] b
  have d: "\<exists>rest. get_roles_of_user 2 failing_get_roles_by_user_id sample_format_exc
          = Inl (CustomException 400 ''400'' (str db_down @ '': '' @ rest))"
    by (rule mp)
  from a c b d show ?thesis by (intro conjI)
qed

section \<open>Token codec: C5, C7, C8, C10\<close>

text \<open>
  C5, as the spec states it: an expired token is denied with an error kind of its own,
  distinguishable from the denial of a malformed or wrongly signed token. The library
  does tell the two apart, but \<open>get_current_user\<close> answers both with the same status
  code and the same detail.
\<close>

theorem jwt_errors_counterexample:
  "create_access_token sym_jwt sample_settings 1000000000 alice_data (Some 60000000)
     = Inr alice_token
   \<and> decode sym_jwt alice_token
       (SECRET_KEY sample_settings) [SECURITY_ALGORITHM sample_settings] 5000000000
     = Inl ExpiredSignatureError
   \<and> decode sym_jwt (Garbage ''not.a.token'')
       (SECRET_KEY sample_settings) [SECURITY_ALGORITHM sample_settings] 5000000000
     = Inl DecodeError
   \<and> get_current_user sym_jwt sample_settings alice_token 5000000000 sample_users
     = Inl (HTTPException 403 detail_invalid_token)
   \<and> get_current_user sym_jwt sample_settings (Garbage ''not.a.token'') 5000000000
       sample_users
     = Inl (HTTPException 403 detail_invalid_token)"
  by (simp add: get_current_user_def decode_username_def create_access_token_def
      datetime_add_def datetime_min_def datetime_max_def
      sym_jwt_def sym_encode_def numeric_date_def sym_decode_def sample_settings_def
      alice_data_def alice_token_def)

text \<open>
  C5, amended: whatever error the JWT library raises while decoding (an expired
  signature as much as a malformed encoding or a signature mismatch), token
  verification fails with the one denial of line 57: HTTP 403 and the detail for an
  invalid token. Expired and invalid tokens are not distinguishable.
\<close>

theorem jwt_errors_collapse:
  assumes "decode lib credentials (SECRET_KEY st) [SECURITY_ALGORITHM st] now = Inl e"
  shows "decode_username lib st credentials now = Inl (HTTPException 403 detail_invalid_token)
       \<and> get_current_user lib st credentials now users
           = Inl (HTTPException 403 detail_invalid_token)"
  using assms by (simp add: get_current_user_def decode_username_def)

text \<open>C5, amended, at a token checked long after its expiry.\<close>

theorem jwt_errors_collapse_witness:
  "decode_username sym_jwt sample_settings alice_token 5000000000
     = Inl (HTTPException 403 detail_invalid_token)
   \<and> get_current_user sym_jwt sample_settings alice_token 5000000000 sample_users
     = Inl (HTTPException 403 detail_invalid_token)"
proof (rule jwt_errors_collapse)
  show "decode sym_jwt alice_token
       (SECRET_KEY sample_settings) [SECURITY_ALGORITHM sample_settings] 5000000000
     = Inl ExpiredSignatureError"
    by (simp add: sym_jwt_def sym_decode_def sample_settings_def alice_token_def
        alice_data_def)
qed

text \<open>
  C7, as the spec states it: for every positive lifetime, a token verified right after
  it was issued, before the lifetime has elapsed, yields its subject. With a lifetime
  of half a second, issued at the clock 1000 s, the expiry of 1000.5 s is stored as
  the whole second 1000, and the token counts as expired at the very instant of its
  issuance: verification is denied with the 403.
\<close>

theorem issue_then_verify_counterexample:
  "create_access_token sym_jwt sample_settings 1000000000 alice_data (Some 500000)
     = Inr alice_half_second_token
   \<and> decode_username sym_jwt sample_settings alice_half_second_token 1000000000
     = Inl (HTTPException 403 detail_invalid_token)
   \<and> get_current_user sym_jwt sample_settings alice_half_second_token 1000000000
       sample_users
     = Inl (HTTPException 403 detail_invalid_token)"
  by (simp add: get_current_user_def decode_username_def create_access_token_def
      datetime_add_def datetime_min_def datetime_max_def
      sym_jwt_def sym_encode_def numeric_date_def sym_decode_def sample_settings_def
      alice_data_def alice_half_second_token_def)

text \<open>
  C7, amended: for every subject \<open>s\<close> and positive lifetime \<open>t\<close> for which the time of
  issuance plus \<open>t\<close> is a \<^verbatim>\<open>datetime\<close> (not past the year 9999), a token is issued
  for the claim set with the subject \<open>s\<close> alone, and verifying it at any instant
  before the whole second to which its expiry is cut down yields exactly the subject
  \<open>s\<close>; for a lifetime of one second or more the instant of issuance is such an
  instant. \<open>get_current_user\<close> then goes on to look \<open>s\<close> up in the user table. The
  JWT library enters through its contract for the configured secret and algorithm:
  decoding what was encoded from a string subject and an expiry (a \<^verbatim>\<open>datetime\<close>),
  before the whole second of that expiry, returns a payload with this subject.
\<close>

theorem issue_then_verify:
  assumes roundtrip:
    "\<And>s e now.
       datetime_min \<le> e \<Longrightarrow> e \<le> datetime_max \<Longrightarrow> now < (e div 1000000) * 1000000 \<Longrightarrow>
       \<exists>payload.
         decode lib
           (encode lib [''sub'' \<mapsto> JStr s, ''exp'' \<mapsto> JDatetime e]
              (SECRET_KEY st) (SECURITY_ALGORITHM st))
           (SECRET_KEY st) [SECURITY_ALGORITHM st] now = Inr payload
         \<and> payload ''sub'' = Some (JStr s)"
    and pos: "0 < t"
    and lo: "datetime_min \<le> issued_at"
    and hi: "issued_at + t \<le> datetime_max"
    and before:
      "checked_at < ((issued_at + t) div 1000000) * 1000000
       \<or> (1000000 \<le> t \<and> checked_at = issued_at)"
  shows "\<exists>tok.
           create_access_token lib st issued_at [''sub'' \<mapsto> JStr s] (Some t) = Inr tok
           \<and> decode_username lib st tok checked_at = Inr (JStr s)
           \<and> get_current_user lib st tok checked_at users
               = (case find (\<lambda>u. user_name u = s) users of
                    None \<Rightarrow> Inl (HTTPException 403 detail_credentials_3)
                  | Some u \<Rightarrow> Inr u)"
proof -
  let ?tok = "encode lib [''sub'' \<mapsto> JStr s, ''exp'' \<mapsto> JDatetime (issued_at + t)]
      (SECRET_KEY st) (SECURITY_ALGORITHM st)"
  have issue: "create_access_token lib st issued_at [''sub'' \<mapsto> JStr s] (Some t) = Inr ?tok"
    using pos lo hi by (simp add: create_access_token_def datetime_add_def)
  have "datetime_min \<le> issued_at + t"
    using pos lo by simp
  moreover note hi
  moreover have "checked_at < ((issued_at + t) div 1000000) * 1000000"
    using before whole_second_after_issue [of t issued_at] by blast
  ultimately obtain payload where
    dec: "decode lib ?tok (SECRET_KEY st) [SECURITY_ALGORITHM st] checked_at = Inr payload"
    and sub: "payload ''sub'' = Some (JStr s)"
    using roundtrip [of "issued_at + t" checked_at s] by blast
  have a: "decode_username lib st ?tok checked_at = Inr (JStr s)"
    by (simp add: decode_username_def dec sub)
  have b: "get_current_user lib st ?tok checked_at users
      = (case find (\<lambda>u. user_name u = s) users of
           None \<Rightarrow> Inl (HTTPException 403 detail_credentials_3)
         | Some u \<Rightarrow> Inr u)"
    by (simp add: get_current_user_def a)
  from issue a b show ?thesis by blast
qed

text \<open>
  C7, amended, for \<open>alice\<close> and a lifetime of sixty seconds, verified at the instant
  of issuance.
\<close>

theorem issue_then_verify_witness:
  "create_access_token sym_jwt sample_settings 1000000000 alice_data (Some 60000000)
     = Inr alice_token
   \<and> decode_username sym_jwt sample_settings alice_token 1000000000 = Inr (JStr ''alice'')
   \<and> get_current_user sym_jwt sample_settings alice_token 1000000000 sample_users
     = Inr alice"
proof -
  have "(0::int) < 60000000" and "datetime_min \<le> 1000000000"
    and "1000000000 + 60000000 \<le> datetime_max"
    and "(1000000000::int) < ((1000000000 + 60000000) div 1000000) * 1000000
       \<or> ((1000000::int) \<le> 60000000 \<and> (1000000000::int) = 1000000000)"
    by (simp_all add: datetime_min_def datetime_max_def)
  from issue_then_verify [where lib = sym_jwt and st = sample_settings and t = 60000000
      and issued_at = 1000000000 and checked_at = 1000000000 and s = "''alice''"
      and users = sample_users, OF sym_jwt_roundtrip this]
  obtain tok where
    "create_access_token sym_jwt sample_settings 1000000000 [''sub'' \<mapsto> JStr ''alice'']
       (Some 60000000) = Inr tok"
    and d: "decode_username sym_jwt sample_settings tok 1000000000 = Inr (JStr ''alice'')"
    and g: "get_current_user sym_jwt sample_settings tok 1000000000 sample_users
      = (case find (\<lambda>u. user_name u = ''alice'') sample_users of
           None \<Rightarrow> Inl (HTTPException 403 detail_credentials_3)
         | Some u \<Rightarrow> Inr u)"
    by blast
  with issue_alice have tok: "tok = alice_token"
    by (simp add: alice_data_def)
  from g have "get_current_user sym_jwt sample_settings tok 1000000000 sample_users
      = Inr alice"
    by (simp add: sample_users_def alice_def)
  with issue_alice d tok show ?thesis by simp
qed

text \<open>
  C8, as the spec states it: the expiry is the current time plus the given
  \<open>expires_delta\<close> whenever one is given, and a token is produced. For a given delta
  of zero the expiry is the current time plus the configured default of 3600 seconds
  instead; for a given delta of 259200000000 seconds the sum lies past the year 9999
  and no token is produced.
\<close>

theorem create_access_token_zero_counterexample:
  "create_access_token sym_jwt sample_settings 1000000000 alice_data (Some 0)
     = Inr alice_default_token
   \<and> token_claims alice_default_token ''exp'' = Some (JInt 4600)
   \<and> token_claims alice_default_token ''exp'' \<noteq> Some (JInt (1000 + 0))
   \<and> create_access_token sym_jwt sample_settings 1000000000 alice_data
       (Some 259200000000000000)
     = Inl OverflowError"
  by (simp add: create_access_token_def datetime_add_def datetime_min_def datetime_max_def
      timedelta_seconds_def sym_jwt_def sym_encode_def numeric_date_def
      sample_settings_def alice_data_def alice_default_token_def)

text \<open>
  C8, amended: \<open>create_access_token\<close> hands to the encoder the given claims with
  \<open>exp\<close> set to the current time plus \<open>expires_delta\<close> when a delta other than zero is
  given, and to the current time plus the configured default lifetime when none is
  given, in both cases provided that the sum is a \<^verbatim>\<open>datetime\<close> (not past the year
  9999, and the default a lifetime that \<^verbatim>\<open>timedelta\<close> can hold); it signs with the
  configured secret and the one configured algorithm.
\<close>

theorem create_access_token_exp:
  "(expires_delta = Some d \<and> d \<noteq> 0
      \<and> datetime_min \<le> now + d \<and> now + d \<le> datetime_max \<longrightarrow>
      create_access_token lib st now data expires_delta =
        Inr (encode lib (data(''exp'' \<mapsto> JDatetime (now + d)))
               (SECRET_KEY st) (SECURITY_ALGORITHM st)))
   \<and> (expires_delta = None
      \<and> - 999999999 * 86400 \<le> ACCESS_TOKEN_EXPIRE_SECONDS st
      \<and> ACCESS_TOKEN_EXPIRE_SECONDS st < 1000000000 * 86400
      \<and> datetime_min \<le> now + ACCESS_TOKEN_EXPIRE_SECONDS st * 1000000
      \<and> now + ACCESS_TOKEN_EXPIRE_SECONDS st * 1000000 \<le> datetime_max \<longrightarrow>
      create_access_token lib st now data expires_delta =
        Inr (encode lib
               (data(''exp'' \<mapsto> JDatetime (now + ACCESS_TOKEN_EXPIRE_SECONDS st * 1000000)))
               (SECRET_KEY st) (SECURITY_ALGORITHM st)))"
  by (simp add: create_access_token_def datetime_add_def timedelta_seconds_def)

text \<open>C8, amended, for a lifetime of sixty seconds and for no lifetime given.\<close>

theorem create_access_token_exp_witness:
  "create_access_token sym_jwt sample_settings 1000000000 alice_data (Some 60000000)
     = Inr (encode sym_jwt (alice_data(''exp'' \<mapsto> JDatetime 1060000000)) ''s3cr3t'' ''HS256'')
   \<and> create_access_token sym_jwt sample_settings 1000000000 alice_data None
     = Inr (encode sym_jwt (alice_data(''exp'' \<mapsto> JDatetime 4600000000)) ''s3cr3t'' ''HS256'')"
  using create_access_token_exp [of "Some 60000000" 60000000 1000000000 sym_jwt
      sample_settings alice_data]
    create_access_token_exp [of None 0 1000000000 sym_jwt sample_settings alice_data]
  by (simp add: sample_settings_def datetime_min_def datetime_max_def)

text \<open>
  C10: called with an \<open>expires_delta\<close> of zero, \<open>create_access_token\<close> sets the expiry
  from the configured default lifetime, exactly as when no delta is given: the two
  calls give the same result, which is the token with \<open>exp\<close> at the current time plus
  the default lifetime, and \<^verbatim>\<open>OverflowError\<close> where Python cannot form that
  \<^verbatim>\<open>timedelta\<close> or that \<^verbatim>\<open>datetime\<close>.
\<close>

theorem zero_delta_uses_default:
  "create_access_token lib st now data (Some 0) = create_access_token lib st now data None
   \<and> create_access_token lib st now data (Some 0) =
       (if - 999999999 * 86400 \<le> ACCESS_TOKEN_EXPIRE_SECONDS st
           \<and> ACCESS_TOKEN_EXPIRE_SECONDS st < 1000000000 * 86400
           \<and> datetime_min \<le> now + ACCESS_TOKEN_EXPIRE_SECONDS st * 1000000
           \<and> now + ACCESS_TOKEN_EXPIRE_SECONDS st * 1000000 \<le> datetime_max
        then Inr (encode lib
                    (data(''exp'' \<mapsto> JDatetime (now + ACCESS_TOKEN_EXPIRE_SECONDS st * 1000000)))
                    (SECRET_KEY st) (SECURITY_ALGORITHM st))
        else Inl OverflowError)"
  by (simp add: create_access_token_def datetime_add_def timedelta_seconds_def)

text \<open>C10 at the clock 1000 s with the default lifetime of 3600 s.\<close>

theorem zero_delta_uses_default_witness:
  "create_access_token sym_jwt sample_settings 1000000000 alice_data (Some 0)
     = Inr (encode sym_jwt (alice_data(''exp'' \<mapsto> JDatetime 4600000000)) ''s3cr3t'' ''HS256'')"
  using zero_delta_uses_default [where lib = sym_jwt and st = sample_settings
      and now = 1000000000 and data = alice_data, THEN conjunct2]
  by (simp add: sample_settings_def datetime_min_def datetime_max_def)

section \<open>Password hasher: C6, C9\<close>

text \<open>
  C6, as the spec states it: for a malformed second argument \<open>verify_password\<close> returns
  false and never raises. The function has no handler of its own: with a hashing
  context that raises for a string it cannot identify, the exception reaches the
  caller.
\<close>

theorem verify_password_malformed_counterexample:
  "verify_password sym_context ''hunter2'' ''not-a-hash'' = Inl UnknownHashError"
  by (simp add: verify_password_def sym_context_def sym_verify_def)

text \<open>
  C6, amended: \<open>verify_password\<close> returns exactly what the hashing context's \<open>verify\<close>
  returns and raises exactly what it raises; it is false for a malformed hash only
  when the context itself answers false.
\<close>

theorem verify_password_passes_through:
  "(verify_password pwd_context password hash_password = Inr b
      \<longleftrightarrow> verify pwd_context password hash_password = Inr b)
   \<and> (verify_password pwd_context password hash_password = Inl e
      \<longleftrightarrow> verify pwd_context password hash_password = Inl e)"
  by (simp add: verify_password_def)




end
